theory Spec2Isabelle
  imports Complex_Main "HOL-Library.Word"
begin

unbundle bit_operations_syntax

section \<open>Data model of \<open>aiobookoo/decode.py\<close>\<close>

text \<open>
  A \<open>bytearray\<close> is a list of 8-bit words; reading an element gives a Python \<open>int\<close>
  in \<open>0..255\<close>, which is \<open>uint\<close> of the word. Python's \<open>float\<close> results
  (\<open>n / 1000.0\<close>, \<open>n / 100.0\<close>) are kept as the exact quotient in \<open>real\<close>; the rounding
  of the quotient to a double is not modelled.
\<close>

type_synonym byte = "8 word"
type_synonym bytearray = "byte list"

text \<open>
  The exceptions that the module raises. The classes of \<open>exceptions.py\<close> are built from
  the arguments that \<open>decode.py\<close> passes to them; \<open>IndexError\<close> is Python's own, raised
  by an index that is out of range.
\<close>

datatype exn =
    BookooMessageTooShort bytearray
  | BookooMessageTooLong bytearray
  | BookooMessageError bytearray string
  | IndexError

text \<open>
  The attributes of a \<open>BookooMessage\<close> object. An attribute that holds \<open>None\<close>, or that
  \<open>decode_ultra_message\<close> never sets on the object it builds with \<open>__new__\<close>
  (\<open>weight_symbol\<close>, \<open>flow_symbol\<close>), is \<open>None\<close> here.
\<close>

record BookooMessage =
  timer :: "real option"
  unit :: int
  weight_symbol :: "int option"
  weight :: "real option"
  flow_symbol :: "int option"
  flow_rate :: "real option"
  battery :: int
  standby_time :: int
  buzzer_gear :: int
  flow_rate_smoothing :: "int option"

section \<open>Python primitives used by the decoder\<close>

text \<open>\<open>payload[i]\<close>: a negative index counts from the end; out of range raises.\<close>

definition getitem :: "bytearray \<Rightarrow> int \<Rightarrow> exn + int" where
  "getitem payload i =
     (if 0 \<le> i \<and> i < int (length payload) then Inr (uint (payload ! nat i))
      else if i < 0 \<and> - int (length payload) \<le> i
        then Inr (uint (payload ! nat (int (length payload) + i)))
      else Inl IndexError)"

text \<open>\<open>payload[a:b]\<close> with \<open>0 \<le> a\<close>, \<open>0 \<le> b\<close>: the bounds are clamped, nothing raises.\<close>

definition getslice :: "bytearray \<Rightarrow> nat \<Rightarrow> nat \<Rightarrow> bytearray" where
  "getslice payload a b = drop a (take b payload)"

text \<open>\<open>payload[:-1]\<close>: everything but the last element (empty for an empty payload).\<close>

definition slice_to_minus1 :: "bytearray \<Rightarrow> bytearray" where
  "slice_to_minus1 payload = take (length payload - 1) payload"

text \<open>\<open>int.from_bytes(bs, byteorder="big")\<close>.\<close>

definition from_bytes_big :: "bytearray \<Rightarrow> int" where
  "from_bytes_big bs = foldl (\<lambda>acc b. acc * 256 + uint b) 0 bs"

text \<open>\<open>int.from_bytes(bs, byteorder="big", signed=True)\<close>: two's complement on
  \<open>8 * len(bs)\<close> bits; the empty sequence gives 0.\<close>

definition from_bytes_big_signed :: "bytearray \<Rightarrow> int" where
  "from_bytes_big_signed bs =
     (let n = from_bytes_big bs in
      if bs \<noteq> [] \<and> 2 ^ (8 * length bs - 1) \<le> n then n - 2 ^ (8 * length bs) else n)"

text \<open>Sequencing of statements that may raise.\<close>

definition bind_exn :: "exn + 'a \<Rightarrow> ('a \<Rightarrow> exn + 'b) \<Rightarrow> exn + 'b" where
  "bind_exn m f = (case m of Inl e \<Rightarrow> Inl e | Inr v \<Rightarrow> f v)"

section \<open>The Mini decoder: \<open>BookooMessage.__init__\<close>\<close>

text \<open>The checksum loop: \<open>checksum = 0; for byte in payload[:-1]: checksum ^= byte\<close>.\<close>

definition checksum_loop :: "bytearray \<Rightarrow> int" where
  "checksum_loop bs = foldl (\<lambda>checksum b. checksum XOR uint b) 0 bs"

definition BookooMessage_init :: "bytearray \<Rightarrow> exn + BookooMessage" where
  "BookooMessage_init payload =
     (let timer_v = real_of_int (from_bytes_big (getslice payload 3 5)) / 1000 in
      bind_exn (getitem payload 5) (\<lambda>unit_v.
      bind_exn (getitem payload 6) (\<lambda>b6.
      let weight_symbol_v = (if b6 = 45 then - 1 else 1 :: int);
          weight_v = real_of_int (from_bytes_big (getslice payload 8 10)) / 100
                       * real_of_int weight_symbol_v in
      bind_exn (getitem payload 10) (\<lambda>b10.
      let flow_symbol_v = (if b10 = 45 then - 1 else 1 :: int);
          flow_rate_v = real_of_int (from_bytes_big (getslice payload 12 13)) / 100
                          * real_of_int flow_symbol_v in
      bind_exn (getitem payload 13) (\<lambda>battery_v.
      bind_exn (getitem payload 14) (\<lambda>standby_time_v.
      bind_exn (getitem payload 16) (\<lambda>buzzer_gear_v.
      bind_exn (getitem payload 17) (\<lambda>flow_rate_smoothing_v.
      let checksum = checksum_loop (slice_to_minus1 payload) in
      bind_exn (getitem payload (- 1)) (\<lambda>last_v.
      if checksum \<noteq> last_v then Inl (BookooMessageError payload ''Checksum mismatch'')
      else Inr \<lparr> timer = Some timer_v,
                 unit = unit_v,
                 weight_symbol = Some weight_symbol_v,
                 weight = Some weight_v,
                 flow_symbol = Some flow_symbol_v,
                 flow_rate = Some flow_rate_v,
                 battery = battery_v,
                 standby_time = standby_time_v,
                 buzzer_gear = buzzer_gear_v,
                 flow_rate_smoothing = Some flow_rate_smoothing_v \<rparr>)))))))))"

section \<open>The Ultra decoder\<close>

text \<open>Python's \<open>and\<close> stops at the first false operand, so the two bytes are read
  only when the length is 20.\<close>

definition is_ultra_message :: "bytearray \<Rightarrow> bool" where
  "is_ultra_message payload =
     (length payload = 20 \<and> uint (payload ! 0) = 0x55 \<and> uint (payload ! 1) = 0xAA)"

text \<open>The body of the \<open>try\<close> block of \<open>decode_ultra_message\<close>.\<close>

definition decode_ultra_try :: "bytearray \<Rightarrow> exn + (BookooMessage option \<times> bytearray)" where
  "decode_ultra_try payload =
     (let raw_weight = from_bytes_big_signed (getslice payload 6 10);
          weight_v = real_of_int raw_weight / 100 in
      bind_exn (getitem payload 14) (\<lambda>battery_v.
      bind_exn (getitem payload 15) (\<lambda>buzzer_gear_v.
      bind_exn (getitem payload 16) (\<lambda>standby_time_v.
      Inr (Some \<lparr> timer = None,
                   unit = 0,
                   weight_symbol = None,
                   weight = Some weight_v,
                   flow_symbol = None,
                   flow_rate = None,
                   battery = battery_v,
                   standby_time = standby_time_v,
                   buzzer_gear = buzzer_gear_v,
                   flow_rate_smoothing = None \<rparr>, [])))))"

text \<open>\<open>try: ... except Exception: return (None, payload)\<close>.\<close>

definition decode_ultra_message :: "bytearray \<Rightarrow> exn + (BookooMessage option \<times> bytearray)" where
  "decode_ultra_message payload =
     (case decode_ultra_try payload of
        Inr r \<Rightarrow> Inr r
      | Inl ex \<Rightarrow> Inr (None, payload))"

section \<open>The entry point\<close>

text \<open>
  \<open>WEIGHT_BYTE1\<close> and \<open>WEIGHT_BYTE2\<close> come from \<open>const.py\<close>; they are parameters of
  \<open>decode\<close> here.
\<close>

definition decode :: "int \<Rightarrow> int \<Rightarrow> bytearray \<Rightarrow> exn + (BookooMessage option \<times> bytearray)" where
  "decode WEIGHT_BYTE1 WEIGHT_BYTE2 byte_msg =
     (if length byte_msg < 20 then Inl (BookooMessageTooShort byte_msg)
      else if length byte_msg > 20 then Inl (BookooMessageTooLong byte_msg)
      else if is_ultra_message byte_msg then decode_ultra_message byte_msg
      else if uint (byte_msg ! 0) = WEIGHT_BYTE1 \<and> uint (byte_msg ! 1) = WEIGHT_BYTE2
        then bind_exn (BookooMessage_init byte_msg) (\<lambda>msg. Inr (Some msg, []))
      else Inr (None, byte_msg))"

section \<open>Facts about the primitives\<close>

lemma checksum_loop_gen:
  "foldl (\<lambda>checksum b. checksum XOR uint b) (uint c) bs = uint (foldl (XOR) c bs)"
  by (induction bs arbitrary: c) (simp_all flip: uint_xor)

lemma checksum_loop_uint: "checksum_loop bs = uint (foldl (XOR) 0 bs)"
  using checksum_loop_gen [of 0 bs] by (simp add: checksum_loop_def)

lemma getitem_nat:
  "n < length p \<Longrightarrow> getitem p (int n) = Inr (uint (p ! n))"
  by (simp add: getitem_def)

lemma getitem_numeral:
  "numeral k < length p \<Longrightarrow> getitem p (numeral k) = Inr (uint (p ! numeral k))"
  using getitem_nat [of "numeral k" p] by simp

lemma getitem_minus1:
  "p \<noteq> [] \<Longrightarrow> getitem p (- 1) = Inr (uint (last p))"
  by (cases p rule: rev_cases) (simp_all add: getitem_def nat_add_distrib)

lemma getitem_out_of_range:
  "length p \<le> n \<Longrightarrow> getitem p (int n) = Inl IndexError"
  by (simp add: getitem_def)

lemma slice_to_minus1_butlast: "slice_to_minus1 p = butlast p"
  by (simp add: slice_to_minus1_def butlast_conv_take)

lemma from_bytes_big_two: "from_bytes_big [a, b] = uint a * 256 + uint b"
  by (simp add: from_bytes_big_def)

lemma from_bytes_big_one: "from_bytes_big [a] = uint a"
  by (simp add: from_bytes_big_def)

lemma slice_two:
  "Suc (Suc a) \<le> length p \<Longrightarrow> getslice p a (Suc (Suc a)) = [p ! a, p ! Suc a]"
  unfolding getslice_def
  by (simp add: drop_take Cons_nth_drop_Suc [symmetric] take_Suc_conv_app_nth)

lemma slice_one:
  "Suc a \<le> length p \<Longrightarrow> getslice p a (Suc a) = [p ! a]"
  unfolding getslice_def
  by (simp add: drop_take Cons_nth_drop_Suc [symmetric])

lemma uint_eq_numeral_byte: "(uint (x :: byte) = 45) = (x = 45)"
  using word_uint_eq_iff [of x 45] by simp

lemma uint_eq_0x55_byte: "(uint (x :: byte) = 0x55) = (x = 0x55)"
  using word_uint_eq_iff [of x "0x55"] by simp

lemma uint_eq_0xAA_byte: "(uint (x :: byte) = 0xAA) = (x = 0xAA)"
  using word_uint_eq_iff [of x "0xAA"] by simp

lemma is_ultra_message_iff:
  "is_ultra_message p = (length p = 20 \<and> p ! 0 = 0x55 \<and> p ! 1 = 0xAA)"
  by (simp add: is_ultra_message_def uint_eq_0x55_byte uint_eq_0xAA_byte)

lemma slice_four:
  assumes "10 \<le> length p"
  shows "getslice p 6 10 = [p ! 6, p ! 7, p ! 8, p ! 9]"
proof -
  have "drop 6 (take 10 p) = take 4 (drop 6 p)"
    by (simp add: drop_take)
  also have "drop 6 p = p ! 6 # drop 7 p"
    using Cons_nth_drop_Suc [of 6 p] assms by simp
  also have "drop 7 p = p ! 7 # drop 8 p"
    using Cons_nth_drop_Suc [of 7 p] assms by simp
  also have "drop 8 p = p ! 8 # drop 9 p"
    using Cons_nth_drop_Suc [of 8 p] assms by simp
  also have "drop 9 p = p ! 9 # drop 10 p"
    using Cons_nth_drop_Suc [of 9 p] assms by simp
  finally show ?thesis
    by (simp add: getslice_def eval_nat_numeral)
qed

lemma from_bytes_big_four:
  "from_bytes_big [a, b, c, d] = uint a * 2 ^ 24 + uint b * 2 ^ 16 + uint c * 2 ^ 8 + uint d"
  by (simp add: from_bytes_big_def)

lemma from_bytes_big_signed_four:
  "from_bytes_big_signed [a, b, c, d] =
     (if 2 ^ 31 \<le> uint a * 2 ^ 24 + uint b * 2 ^ 16 + uint c * 2 ^ 8 + uint d
      then uint a * 2 ^ 24 + uint b * 2 ^ 16 + uint c * 2 ^ 8 + uint d - 2 ^ 32
      else uint a * 2 ^ 24 + uint b * 2 ^ 16 + uint c * 2 ^ 8 + uint d)"
  unfolding from_bytes_big_signed_def Let_def from_bytes_big_four by simp

lemma sign_mult:
  "x * real_of_int (if c then - 1 else 1) = (if c then - x else (x :: real))"
  by simp

section \<open>What the decoders compute on a frame\<close>

lemma BookooMessage_init_len20:
  assumes "length p = 20"
  shows "BookooMessage_init p =
    (if foldl (XOR) 0 (butlast p) \<noteq> last p
     then Inl (BookooMessageError p ''Checksum mismatch'')
     else Inr \<lparr> timer = Some (real_of_int (uint (p ! 3) * 256 + uint (p ! 4)) / 1000),
                unit = uint (p ! 5),
                weight_symbol = Some (if p ! 6 = 0x2D then - 1 else 1),
                weight = Some (real_of_int (uint (p ! 8) * 256 + uint (p ! 9)) / 100
                               * real_of_int (if p ! 6 = 0x2D then - 1 else 1)),
                flow_symbol = Some (if p ! 10 = 0x2D then - 1 else 1),
                flow_rate = Some (real_of_int (uint (p ! 12)) / 100
                               * real_of_int (if p ! 10 = 0x2D then - 1 else 1)),
                battery = uint (p ! 13),
                standby_time = uint (p ! 14),
                buzzer_gear = uint (p ! 16),
                flow_rate_smoothing = Some (uint (p ! 17)) \<rparr>)"
proof -
  have s1: "getslice p 3 5 = [p ! 3, p ! 4]"
    using slice_two [of 3 p] assms by (simp add: eval_nat_numeral)
  have s2: "getslice p 8 10 = [p ! 8, p ! 9]"
    using slice_two [of 8 p] assms by (simp add: eval_nat_numeral)
  have s3: "getslice p 12 13 = [p ! 12]"
    using slice_one [of 12 p] assms by (simp add: eval_nat_numeral)
  have ne: "p \<noteq> []" using assms by auto
  have g: "getitem p 5 = Inr (uint (p ! 5))" "getitem p 6 = Inr (uint (p ! 6))"
    "getitem p 10 = Inr (uint (p ! 10))" "getitem p 13 = Inr (uint (p ! 13))"
    "getitem p 14 = Inr (uint (p ! 14))" "getitem p 16 = Inr (uint (p ! 16))"
    "getitem p 17 = Inr (uint (p ! 17))"
    using assms by (simp_all add: getitem_numeral)
  have ck: "(checksum_loop (slice_to_minus1 p) \<noteq> uint (last p)) = (foldl (XOR) 0 (butlast p) \<noteq> last p)"
    by (simp add: slice_to_minus1_butlast checksum_loop_uint word_uint_eq_iff)
  show ?thesis
    unfolding BookooMessage_init_def Let_def g s1 s2 s3 getitem_minus1 [OF ne] bind_exn_def
      from_bytes_big_two from_bytes_big_one sum.case ck uint_eq_numeral_byte
    by simp
qed

lemma decode_ultra_try_in_range:
  assumes "16 < length p"
  shows "decode_ultra_try p =
    Inr (Some \<lparr> timer = None, unit = 0, weight_symbol = None,
                 weight = Some (real_of_int (from_bytes_big_signed (getslice p 6 10)) / 100),
                 flow_symbol = None, flow_rate = None,
                 battery = uint (p ! 14), standby_time = uint (p ! 16),
                 buzzer_gear = uint (p ! 15), flow_rate_smoothing = None \<rparr>, [])"
proof -
  have g: "getitem p 14 = Inr (uint (p ! 14))" "getitem p 15 = Inr (uint (p ! 15))"
    "getitem p 16 = Inr (uint (p ! 16))"
    using assms by (simp_all add: getitem_numeral)
  show ?thesis
    unfolding decode_ultra_try_def Let_def g bind_exn_def sum.case by simp
qed

lemma decode_ultra_try_short:
  assumes "length p \<le> 16"
  shows "decode_ultra_try p = Inl IndexError"
proof -
  consider "length p \<le> 14" | "length p = 15" | "length p = 16"
    using assms by linarith
  then show ?thesis
  proof cases
    case 1
    then have "getitem p 14 = Inl IndexError"
      using getitem_out_of_range [of p 14] by simp
    then show ?thesis
      by (simp add: decode_ultra_try_def bind_exn_def)
  next
    case 2
    then have "getitem p 14 = Inr (uint (p ! 14))" "getitem p 15 = Inl IndexError"
      using getitem_out_of_range [of p 15] by (simp_all add: getitem_numeral)
    then show ?thesis
      by (simp add: decode_ultra_try_def bind_exn_def)
  next
    case 3
    then have "getitem p 14 = Inr (uint (p ! 14))" "getitem p 15 = Inr (uint (p ! 15))"
      "getitem p 16 = Inl IndexError"
      using getitem_out_of_range [of p 16] by (simp_all add: getitem_numeral)
    then show ?thesis
      by (simp add: decode_ultra_try_def bind_exn_def)
  qed
qed

lemma decode_ultra_message_len20:
  assumes "length p = 20"
  shows "decode_ultra_message p =
    Inr (Some \<lparr> timer = None, unit = 0, weight_symbol = None,
                 weight = Some (real_of_int
                   (if 2 ^ 31 \<le> uint (p ! 6) * 2 ^ 24 + uint (p ! 7) * 2 ^ 16 + uint (p ! 8) * 2 ^ 8 + uint (p ! 9)
                    then uint (p ! 6) * 2 ^ 24 + uint (p ! 7) * 2 ^ 16 + uint (p ! 8) * 2 ^ 8 + uint (p ! 9) - 2 ^ 32
                    else uint (p ! 6) * 2 ^ 24 + uint (p ! 7) * 2 ^ 16 + uint (p ! 8) * 2 ^ 8 + uint (p ! 9)) / 100),
                 flow_symbol = None, flow_rate = None,
                 battery = uint (p ! 14), standby_time = uint (p ! 16),
                 buzzer_gear = uint (p ! 15), flow_rate_smoothing = None \<rparr>, [])"
proof -
  have "16 < length p" "10 \<le> length p" using assms by simp_all
  then show ?thesis
    unfolding decode_ultra_message_def
    by (simp only: decode_ultra_try_in_range slice_four from_bytes_big_signed_four sum.case)
qed

lemma decode_len20:
  assumes "length p = 20"
  shows "decode WB1 WB2 p =
     (if p ! 0 = 0x55 \<and> p ! 1 = 0xAA then decode_ultra_message p
      else if uint (p ! 0) = WB1 \<and> uint (p ! 1) = WB2
        then bind_exn (BookooMessage_init p) (\<lambda>msg. Inr (Some msg, []))
      else Inr (None, p))"
  using assms by (simp add: decode_def is_ultra_message_iff)

section \<open>The XOR checksum under corruption of one byte\<close>

lemma foldl_xor_acc:
  "foldl (XOR) c bs = c XOR foldl (XOR) 0 (bs :: byte list)"
proof (induction bs arbitrary: c)
  case Nil
  show ?case by simp
next
  case (Cons b bs)
  have "foldl (XOR) c (b # bs) = (c XOR b) XOR foldl (XOR) 0 bs"
    using Cons.IH [of "c XOR b"] by simp
  also have "\<dots> = c XOR (b XOR foldl (XOR) 0 bs)"
    by (simp add: xor.assoc)
  also have "\<dots> = c XOR foldl (XOR) 0 (b # bs)"
    using Cons.IH [of b] by simp
  finally show ?case .
qed

lemma foldl_xor_update:
  "i < length bs \<Longrightarrow>
     foldl (XOR) 0 (bs[i := bs ! i XOR d]) = foldl (XOR) 0 bs XOR (d :: byte)"
proof (induction bs arbitrary: i)
  case Nil
  then show ?case by simp
next
  case (Cons b bs)
  show ?case
  proof (cases i)
    case 0
    have "foldl (XOR) 0 ((b # bs)[0 := (b # bs) ! 0 XOR d]) = foldl (XOR) (b XOR d) bs"
      by simp
    also have "\<dots> = (b XOR d) XOR foldl (XOR) 0 bs"
      by (rule foldl_xor_acc)
    also have "\<dots> = (b XOR foldl (XOR) 0 bs) XOR d"
      by (simp add: ac_simps)
    also have "\<dots> = foldl (XOR) 0 (b # bs) XOR d"
      using foldl_xor_acc [of b bs] by simp
    finally show ?thesis using 0 by simp
  next
    case (Suc j)
    then have j: "j < length bs" using Cons.prems by simp
    have "foldl (XOR) 0 ((b # bs)[Suc j := (b # bs) ! Suc j XOR d])
        = foldl (XOR) b (bs[j := bs ! j XOR d])"
      by simp
    also have "\<dots> = b XOR foldl (XOR) 0 (bs[j := bs ! j XOR d])"
      by (rule foldl_xor_acc)
    also have "\<dots> = b XOR (foldl (XOR) 0 bs XOR d)"
      using Cons.IH [OF j] by simp
    also have "\<dots> = (b XOR foldl (XOR) 0 bs) XOR d"
      by (simp add: ac_simps)
    also have "\<dots> = foldl (XOR) 0 (b # bs) XOR d"
      using foldl_xor_acc [of b bs] by simp
    finally show ?thesis using Suc by simp
  qed
qed

lemma flip_bit_byte:
  assumes "k < 8"
  shows "\<exists>d :: byte. d \<noteq> 0 \<and> (\<forall>x. flip_bit k x = x XOR d)"
proof -
  have "(2 :: byte) ^ k \<noteq> 0"
    using assms by (simp add: exp_eq_zero_iff)
  moreover have "\<forall>x :: byte. flip_bit k x = x XOR 2 ^ k"
    by (simp add: flip_bit_eq_xor)
  ultimately show ?thesis by blast
qed

lemma xor_nonzero_neq: "d \<noteq> 0 \<Longrightarrow> x XOR d \<noteq> (x :: byte)"
  by (metis xor.right_neutral xor.left_commute xor_self_eq)

lemma corrupted_checksum:
  assumes "length (p :: byte list) = 20" and "i \<le> 18" and "d \<noteq> 0"
    and "foldl (XOR) 0 (butlast p) = last p"
  shows "foldl (XOR) 0 (butlast (p[i := p ! i XOR d])) \<noteq> last (p[i := p ! i XOR d])"
proof -
  have i: "i < length (butlast p)" using assms(1,2) by simp
  have ne: "p \<noteq> []" using assms(1) by auto
  have b: "butlast (p[i := p ! i XOR d]) = (butlast p)[i := butlast p ! i XOR d]"
    using assms(1,2) i by (simp add: butlast_list_update nth_butlast)
  have l: "last (p[i := p ! i XOR d]) = last p"
    using assms(1,2) ne by (simp add: last_list_update)
  show ?thesis
    unfolding b l foldl_xor_update [OF i] assms(4)
    using xor_nonzero_neq [OF assms(3)] by simp
qed

section \<open>Claims\<close>

text \<open>
  C1. A 20-byte frame whose first two bytes are the Mini markers (which are not the pair
  0x55, 0xAA of the Ultra format) and whose last byte is the XOR of the other nineteen
  decodes to a record with \<open>timer\<close> the big-endian 16-bit value at [3:5] over 1000,
  \<open>unit\<close> byte 5, \<open>weight\<close> the big-endian 16-bit value at [8:10] over 100, negated
  when byte 6 is 0x2D, \<open>flow_rate\<close> byte 12 over 100, negated when byte 10 is 0x2D,
  \<open>battery\<close> byte 13, \<open>standby_time\<close> byte 14, \<open>buzzer_gear\<close> byte 16 and
  \<open>flow_rate_smoothing\<close> byte 17, with no leftover bytes. Weight bytes encoding 12345
  give 123.45, and -123.45 when byte 6 is 0x2D.
\<close>

theorem mini_frame_fields:
  assumes "length p = 20"
    and "uint (p ! 0) = WB1" and "uint (p ! 1) = WB2"
    and "(WB1, WB2) \<noteq> (0x55, 0xAA)"
    and "foldl (XOR) 0 (butlast p) = last p"
  shows "decode WB1 WB2 p =
      Inr (Some \<lparr> timer = Some (real_of_int (uint (p ! 3) * 256 + uint (p ! 4)) / 1000),
                   unit = uint (p ! 5),
                   weight_symbol = Some (if p ! 6 = 0x2D then - 1 else 1),
                   weight = Some (if p ! 6 = 0x2D
                                  then - (real_of_int (uint (p ! 8) * 256 + uint (p ! 9)) / 100)
                                  else real_of_int (uint (p ! 8) * 256 + uint (p ! 9)) / 100),
                   flow_symbol = Some (if p ! 10 = 0x2D then - 1 else 1),
                   flow_rate = Some (if p ! 10 = 0x2D
                                     then - (real_of_int (uint (p ! 12)) / 100)
                                     else real_of_int (uint (p ! 12)) / 100),
                   battery = uint (p ! 13),
                   standby_time = uint (p ! 14),
                   buzzer_gear = uint (p ! 16),
                   flow_rate_smoothing = Some (uint (p ! 17)) \<rparr>, [])
    \<and> (uint (p ! 8) * 256 + uint (p ! 9) = 12345 \<longrightarrow>
         (\<exists>m. decode WB1 WB2 p = Inr (Some m, []) \<and>
              weight m = Some (if p ! 6 = 0x2D then - 123.45 else 123.45)))"
proof -
  have nu: "\<not> (p ! 0 = 0x55 \<and> p ! 1 = 0xAA)"
    using assms(2-4) by auto
  have d: "decode WB1 WB2 p = bind_exn (BookooMessage_init p) (\<lambda>msg. Inr (Some msg, []))"
    using nu assms(2,3) by (auto simp add: decode_len20 [OF assms(1)])
  have ck: "(foldl (XOR) 0 (butlast p) \<noteq> last p) = False"
    using assms(5) by simp
  have r: "decode WB1 WB2 p =
      Inr (Some \<lparr> timer = Some (real_of_int (uint (p ! 3) * 256 + uint (p ! 4)) / 1000),
                   unit = uint (p ! 5),
                   weight_symbol = Some (if p ! 6 = 0x2D then - 1 else 1),
                   weight = Some (if p ! 6 = 0x2D
                                  then - (real_of_int (uint (p ! 8) * 256 + uint (p ! 9)) / 100)
                                  else real_of_int (uint (p ! 8) * 256 + uint (p ! 9)) / 100),
                   flow_symbol = Some (if p ! 10 = 0x2D then - 1 else 1),
                   flow_rate = Some (if p ! 10 = 0x2D
                                     then - (real_of_int (uint (p ! 12)) / 100)
                                     else real_of_int (uint (p ! 12)) / 100),
                   battery = uint (p ! 13),
                   standby_time = uint (p ! 14),
                   buzzer_gear = uint (p ! 16),
                   flow_rate_smoothing = Some (uint (p ! 17)) \<rparr>, [])"
    unfolding d BookooMessage_init_len20 [OF assms(1)] bind_exn_def ck if_False sum.case
      sign_mult
    by (rule refl)
  have w: "real_of_int (uint (p ! 8) * 256 + uint (p ! 9)) / 100 = 123.45"
    if "uint (p ! 8) * 256 + uint (p ! 9) = 12345"
    unfolding that by simp
  show ?thesis
    unfolding r using w by simp
qed

theorem mini_frame_fields_witness:
  "decode 3 11 [3, 11, 0, 0x0A, 0, 1, 0x2B, 0, 0x30, 0x39, 0x2D, 0, 50, 87, 5, 0, 2, 1, 0, 111] =
     Inr (Some \<lparr> timer = Some 2.56, unit = 1, weight_symbol = Some 1, weight = Some 123.45,
                  flow_symbol = Some (- 1), flow_rate = Some (- 0.5), battery = 87,
                  standby_time = 5, buzzer_gear = 2, flow_rate_smoothing = Some 1 \<rparr>, [])"
  using mini_frame_fields [of "[3, 11, 0, 0x0A, 0, 1, 0x2B, 0, 0x30, 0x39, 0x2D, 0, 50, 87, 5, 0, 2, 1, 0, 111]" 3 11]
  by simp

text \<open>
  C2. A 20-byte frame that starts 0x55 0xAA decodes to a record whose \<open>weight\<close> is the
  big-endian 32-bit two's-complement integer at [6:10] over 100, whose \<open>battery\<close> is
  byte 14, \<open>buzzer_gear\<close> byte 15, \<open>standby_time\<close> byte 16, \<open>unit\<close> 0, and whose
  \<open>timer\<close>, \<open>flow_rate\<close> and \<open>flow_rate_smoothing\<close> are \<open>None\<close>; nothing is left over.
\<close>

theorem ultra_frame_fields:
  assumes "length p = 20" and "p ! 0 = 0x55" and "p ! 1 = 0xAA"
  shows "decode WB1 WB2 p =
    Inr (Some \<lparr> timer = None, unit = 0, weight_symbol = None,
                 weight = Some (real_of_int
                   (if 2 ^ 31 \<le> uint (p ! 6) * 2 ^ 24 + uint (p ! 7) * 2 ^ 16 + uint (p ! 8) * 2 ^ 8 + uint (p ! 9)
                    then uint (p ! 6) * 2 ^ 24 + uint (p ! 7) * 2 ^ 16 + uint (p ! 8) * 2 ^ 8 + uint (p ! 9) - 2 ^ 32
                    else uint (p ! 6) * 2 ^ 24 + uint (p ! 7) * 2 ^ 16 + uint (p ! 8) * 2 ^ 8 + uint (p ! 9)) / 100),
                 flow_symbol = None, flow_rate = None,
                 battery = uint (p ! 14), standby_time = uint (p ! 16),
                 buzzer_gear = uint (p ! 15), flow_rate_smoothing = None \<rparr>, [])"
  unfolding decode_len20 [OF assms(1)] decode_ultra_message_len20 [OF assms(1)]
  using assms(2,3) by simp

theorem ultra_frame_fields_witness:
  "decode 3 11 [0x55, 0xAA, 0, 0, 0, 0, 0xFF, 0xFF, 0xFB, 0x2E, 0, 0, 0, 0, 87, 2, 5, 0, 0, 0] =
    Inr (Some \<lparr> timer = None, unit = 0, weight_symbol = None, weight = Some (- 12.34),
                 flow_symbol = None, flow_rate = None, battery = 87, standby_time = 5,
                 buzzer_gear = 2, flow_rate_smoothing = None \<rparr>, [])"
  using ultra_frame_fields [of "[0x55, 0xAA, 0, 0, 0, 0, 0xFF, 0xFF, 0xFB, 0x2E, 0, 0, 0, 0, 87, 2, 5, 0, 0, 0]" 3 11]
  by simp

text \<open>
  C3. A buffer whose length is not 20 makes \<open>decode\<close> raise \<open>BookooMessageTooShort\<close>
  (shorter) or \<open>BookooMessageTooLong\<close> (longer), carrying the buffer, whatever its bytes
  and whatever the markers: no classification takes place.
\<close>

theorem length_errors:
  assumes "length p \<noteq> 20"
  shows "decode WB1 WB2 p =
     (if length p < 20 then Inl (BookooMessageTooShort p) else Inl (BookooMessageTooLong p))"
  using assms by (simp add: decode_def)

theorem length_errors_witness:
  "decode 3 11 [3, 11, 0] = Inl (BookooMessageTooShort [3, 11, 0]) \<and>
   decode 3 11 [0x55, 0xAA, 0, 0, 0, 0, 0, 0, 0, 0, 0, 0, 0, 0, 0, 0, 0, 0, 0, 0, 0] =
     Inl (BookooMessageTooLong [0x55, 0xAA, 0, 0, 0, 0, 0, 0, 0, 0, 0, 0, 0, 0, 0, 0, 0, 0, 0, 0, 0])"
  using length_errors [of "[3, 11, 0]" 3 11]
    length_errors [of "[0x55, 0xAA, 0, 0, 0, 0, 0, 0, 0, 0, 0, 0, 0, 0, 0, 0, 0, 0, 0, 0, 0]" 3 11]
  by simp

text \<open>
  C4. For a 20-byte frame that carries the Mini markers, \<open>decode\<close> returns a record iff
  the XOR of all bytes but the last equals the last byte; otherwise it raises
  \<open>BookooMessageError\<close> with the frame and no record is returned.
\<close>

theorem mini_checksum_gate:
  assumes "length p = 20"
    and "uint (p ! 0) = WB1" and "uint (p ! 1) = WB2"
    and "(WB1, WB2) \<noteq> (0x55, 0xAA)"
  shows "((\<exists>m. decode WB1 WB2 p = Inr (Some m, [])) \<longleftrightarrow> foldl (XOR) 0 (butlast p) = last p)
    \<and> ((\<exists>r. decode WB1 WB2 p = Inr r) \<longleftrightarrow> foldl (XOR) 0 (butlast p) = last p)
    \<and> (foldl (XOR) 0 (butlast p) \<noteq> last p \<longrightarrow>
         decode WB1 WB2 p = Inl (BookooMessageError p ''Checksum mismatch''))"
proof -
  have nu: "\<not> (p ! 0 = 0x55 \<and> p ! 1 = 0xAA)"
    using assms(2-4) by auto
  have d: "decode WB1 WB2 p = bind_exn (BookooMessage_init p) (\<lambda>msg. Inr (Some msg, []))"
    using nu assms(2,3) by (auto simp add: decode_len20 [OF assms(1)])
  show ?thesis
  proof (cases "foldl (XOR) 0 (butlast p) = last p")
    case True
    then show ?thesis
      unfolding d BookooMessage_init_len20 [OF assms(1)] bind_exn_def by simp
  next
    case False
    then show ?thesis
      unfolding d BookooMessage_init_len20 [OF assms(1)] bind_exn_def by simp
  qed
qed

theorem mini_checksum_gate_witness:
  "(\<exists>m. decode 3 11 [3, 11, 0, 0x0A, 0, 1, 0x2B, 0, 0x30, 0x39, 0x2D, 0, 50, 87, 5, 0, 2, 1, 0, 111]
          = Inr (Some m, []))
   \<and> decode 3 11 [3, 11, 0, 0x0A, 0, 1, 0x2B, 0, 0x30, 0x39, 0x2D, 0, 50, 87, 5, 0, 2, 1, 0, 110]
      = Inl (BookooMessageError
          [3, 11, 0, 0x0A, 0, 1, 0x2B, 0, 0x30, 0x39, 0x2D, 0, 50, 87, 5, 0, 2, 1, 0, 110]
          ''Checksum mismatch'')"
  using mini_checksum_gate [of "[3, 11, 0, 0x0A, 0, 1, 0x2B, 0, 0x30, 0x39, 0x2D, 0, 50, 87, 5, 0, 2, 1, 0, 111]" 3 11]
    mini_checksum_gate [of "[3, 11, 0, 0x0A, 0, 1, 0x2B, 0, 0x30, 0x39, 0x2D, 0, 50, 87, 5, 0, 2, 1, 0, 110]" 3 11]
  by simp

text \<open>
  C5. A 20-byte buffer that starts 0x55 0xAA is always handed to the Ultra decoder,
  for any value of the Mini markers, also when they are 0x55 and 0xAA themselves.
\<close>

theorem ultra_priority:
  assumes "length p = 20" and "p ! 0 = 0x55" and "p ! 1 = 0xAA"
  shows "decode WB1 WB2 p = decode_ultra_message p"
  using assms(2,3) by (simp add: decode_len20 [OF assms(1)])

theorem ultra_priority_witness:
  "decode 0x55 0xAA [0x55, 0xAA, 0, 0x0A, 0, 1, 0x2B, 0, 0x30, 0x39, 0x2D, 0, 50, 87, 5, 0, 2, 1, 0, 152]
     = decode_ultra_message
         [0x55, 0xAA, 0, 0x0A, 0, 1, 0x2B, 0, 0x30, 0x39, 0x2D, 0, 50, 87, 5, 0, 2, 1, 0, 152]
   \<and> (\<exists>m. BookooMessage_init
         [0x55, 0xAA, 0, 0x0A, 0, 1, 0x2B, 0, 0x30, 0x39, 0x2D, 0, 50, 87, 5, 0, 2, 1, 0, 152]
       = Inr m)"
  using ultra_priority [of "[0x55, 0xAA, 0, 0x0A, 0, 1, 0x2B, 0, 0x30, 0x39, 0x2D, 0, 50, 87, 5, 0, 2, 1, 0, 152]" "0x55" "0xAA"]
  by (simp add: BookooMessage_init_len20)

text \<open>
  C7. A 20-byte buffer that matches neither the Ultra marker nor the Mini markers is
  returned as \<open>(None, frame)\<close>, the frame unchanged; this is a normal result.
\<close>

theorem unrecognised_passthrough:
  assumes "length p = 20"
    and "\<not> (p ! 0 = 0x55 \<and> p ! 1 = 0xAA)"
    and "\<not> (uint (p ! 0) = WB1 \<and> uint (p ! 1) = WB2)"
  shows "decode WB1 WB2 p = Inr (None, p)"
  using assms(2,3) by (auto simp add: decode_len20 [OF assms(1)])

theorem unrecognised_passthrough_witness:
  "decode 3 11 [1, 2, 3, 4, 5, 6, 7, 8, 9, 10, 11, 12, 13, 14, 15, 16, 17, 18, 19, 20]
     = Inr (None, [1, 2, 3, 4, 5, 6, 7, 8, 9, 10, 11, 12, 13, 14, 15, 16, 17, 18, 19, 20])"
  using unrecognised_passthrough [of "[1, 2, 3, 4, 5, 6, 7, 8, 9, 10, 11, 12, 13, 14, 15, 16, 17, 18, 19, 20]" 3 11]
  by simp

text \<open>
  The bytes FF FF D8 F1 are the two's-complement encoding of -9999, not of -10000: an
  Ultra frame that carries them at [6:10] decodes to the weight -99.99.
\<close>

theorem ultra_weight_0xFFFFD8F1_counterexample:
  "decode 3 11 [0x55, 0xAA, 0, 0, 0, 0, 0xFF, 0xFF, 0xD8, 0xF1, 0, 0, 0, 0, 87, 2, 5, 0, 0, 0] =
     Inr (Some \<lparr> timer = None, unit = 0, weight_symbol = None, weight = Some (- 99.99),
                  flow_symbol = None, flow_rate = None, battery = 87, standby_time = 5,
                  buzzer_gear = 2, flow_rate_smoothing = None \<rparr>, [])
   \<and> Some (- 99.99 :: real) \<noteq> Some (- 100.00)"
  by (simp add: decode_len20 decode_ultra_message_len20)

text \<open>
  C6, amended. In a 20-byte Ultra frame, the big-endian two's-complement value 0xFFFFD8F0
  (-10000) at [6:10] decodes to \<open>weight = -100.00\<close>; the value 0xFFFFD8F1 is -9999
  and decodes to \<open>weight = -99.99\<close>.
\<close>

theorem ultra_weight_minus_10000:
  assumes "length p = 20" and "p ! 0 = 0x55" and "p ! 1 = 0xAA"
    and "p ! 6 = 0xFF" and "p ! 7 = 0xFF" and "p ! 8 = 0xD8"
  shows "\<exists>m. decode WB1 WB2 p = Inr (Some m, [])
            \<and> (p ! 9 = 0xF0 \<longrightarrow> weight m = Some (- 100.00))
            \<and> (p ! 9 = 0xF1 \<longrightarrow> weight m = Some (- 99.99))"
  unfolding decode_len20 [OF assms(1)] decode_ultra_message_len20 [OF assms(1)]
  using assms(2-6) by simp

theorem ultra_weight_minus_10000_witness:
  "\<exists>m. decode 3 11 [0x55, 0xAA, 0, 0, 0, 0, 0xFF, 0xFF, 0xD8, 0xF0, 0, 0, 0, 0, 87, 2, 5, 0, 0, 0]
          = Inr (Some m, []) \<and> weight m = Some (- 100.00)"
  using ultra_weight_minus_10000 [of "[0x55, 0xAA, 0, 0, 0, 0, 0xFF, 0xFF, 0xD8, 0xF0, 0, 0, 0, 0, 87, 2, 5, 0, 0, 0]" 3 11]
  by simp

text \<open>
  C8. \<open>decode_ultra_message\<close> never raises, for any payload: when the body of its
  \<open>try\<close> block raises, the result is \<open>(None, payload)\<close>. So \<open>decode\<close> raises
  nothing on a 20-byte Ultra frame, whereas the Mini constructor raises
  \<open>BookooMessageError\<close> on a 20-byte frame whose checksum does not match.
\<close>

theorem ultra_soft_failure:
  "(\<exists>r. decode_ultra_message p = Inr r)
   \<and> (\<forall>ex. decode_ultra_try p = Inl ex \<longrightarrow> decode_ultra_message p = Inr (None, p))
   \<and> (length p = 20 \<and> p ! 0 = 0x55 \<and> p ! 1 = 0xAA \<longrightarrow> (\<exists>r. decode WB1 WB2 p = Inr r))
   \<and> (length p = 20 \<and> foldl (XOR) 0 (butlast p) \<noteq> last p \<longrightarrow>
        BookooMessage_init p = Inl (BookooMessageError p ''Checksum mismatch''))"
proof -
  have a: "\<exists>r. decode_ultra_message p = Inr r"
    by (cases "decode_ultra_try p") (simp_all add: decode_ultra_message_def)
  have b: "\<forall>ex. decode_ultra_try p = Inl ex \<longrightarrow> decode_ultra_message p = Inr (None, p)"
    by (simp add: decode_ultra_message_def)
  have c: "length p = 20 \<and> p ! 0 = 0x55 \<and> p ! 1 = 0xAA \<longrightarrow> (\<exists>r. decode WB1 WB2 p = Inr r)"
    using a by (simp add: decode_len20)
  have d: "length p = 20 \<and> foldl (XOR) 0 (butlast p) \<noteq> last p \<longrightarrow>
        BookooMessage_init p = Inl (BookooMessageError p ''Checksum mismatch'')"
    by (simp add: BookooMessage_init_len20)
  show ?thesis using a b c d by blast
qed

theorem ultra_soft_failure_witness:
  "decode_ultra_try [0x55, 0xAA, 0, 0, 0, 0, 0, 0, 0x30, 0x39, 0, 0, 0, 0, 87] = Inl IndexError
   \<and> decode_ultra_message [0x55, 0xAA, 0, 0, 0, 0, 0, 0, 0x30, 0x39, 0, 0, 0, 0, 87]
       = Inr (None, [0x55, 0xAA, 0, 0, 0, 0, 0, 0, 0x30, 0x39, 0, 0, 0, 0, 87])
   \<and> (\<exists>r. decode 3 11 [0x55, 0xAA, 0, 0, 0, 0, 0xFF, 0xFF, 0xD8, 0xF0, 0, 0, 0, 0, 87, 2, 5, 0, 0, 0]
           = Inr r)
   \<and> BookooMessage_init [3, 11, 0, 0x0A, 0, 1, 0x2B, 0, 0x30, 0x39, 0x2D, 0, 50, 87, 5, 0, 2, 1, 0, 110]
       = Inl (BookooMessageError
           [3, 11, 0, 0x0A, 0, 1, 0x2B, 0, 0x30, 0x39, 0x2D, 0, 50, 87, 5, 0, 2, 1, 0, 110]
           ''Checksum mismatch'')"
  using ultra_soft_failure [of "[0x55, 0xAA, 0, 0, 0, 0, 0, 0, 0x30, 0x39, 0, 0, 0, 0, 87]" 3 11]
    ultra_soft_failure [of "[0x55, 0xAA, 0, 0, 0, 0, 0xFF, 0xFF, 0xD8, 0xF0, 0, 0, 0, 0, 87, 2, 5, 0, 0, 0]" 3 11]
    ultra_soft_failure [of "[3, 11, 0, 0x0A, 0, 1, 0x2B, 0, 0x30, 0x39, 0x2D, 0, 50, 87, 5, 0, 2, 1, 0, 110]" 3 11]
    decode_ultra_try_short [of "[0x55, 0xAA, 0, 0, 0, 0, 0, 0, 0x30, 0x39, 0, 0, 0, 0, 87]"]
  by simp

text \<open>
  With the markers 0x03, 0x0B: flipping bit 0 of byte 0 of a valid Mini frame gives a frame
  that no longer carries the Mini markers; \<open>decode\<close> returns it as unrecognised and does
  not raise.
\<close>

theorem marker_bit_flip_counterexample:
  "length [3, 11, 0, 0x0A, 0, 1, 0x2B, 0, 0x30, 0x39, 0x2D, 0, 50, 87, 5, 0, 2, 1, 0, 111 :: byte] = 20
   \<and> foldl (XOR) 0 (butlast [3, 11, 0, 0x0A, 0, 1, 0x2B, 0, 0x30, 0x39, 0x2D, 0, 50, 87, 5, 0, 2, 1, 0, 111 :: byte])
       = last [3, 11, 0, 0x0A, 0, 1, 0x2B, 0, 0x30, 0x39, 0x2D, 0, 50, 87, 5, 0, 2, 1, 0, 111]
   \<and> [3, 11, 0, 0x0A, 0, 1, 0x2B, 0, 0x30, 0x39, 0x2D, 0, 50, 87, 5, 0, 2, 1, 0, 111 :: byte]
         [0 := flip_bit 0 (3 :: byte)]
       = [2, 11, 0, 0x0A, 0, 1, 0x2B, 0, 0x30, 0x39, 0x2D, 0, 50, 87, 5, 0, 2, 1, 0, 111]
   \<and> decode 3 11 [2, 11, 0, 0x0A, 0, 1, 0x2B, 0, 0x30, 0x39, 0x2D, 0, 50, 87, 5, 0, 2, 1, 0, 111]
       = Inr (None, [2, 11, 0, 0x0A, 0, 1, 0x2B, 0, 0x30, 0x39, 0x2D, 0, 50, 87, 5, 0, 2, 1, 0, 111])
   \<and> decode 3 11 [2, 11, 0, 0x0A, 0, 1, 0x2B, 0, 0x30, 0x39, 0x2D, 0, 50, 87, 5, 0, 2, 1, 0, 111]
       \<noteq> Inl (BookooMessageError
             [2, 11, 0, 0x0A, 0, 1, 0x2B, 0, 0x30, 0x39, 0x2D, 0, 50, 87, 5, 0, 2, 1, 0, 111]
             ''Checksum mismatch'')"
  by (simp add: decode_len20 flip_bit_eq_xor)

text \<open>
  C9, amended. For a valid Mini frame (20 bytes, Mini markers that are not the pair
  0x55, 0xAA, last byte the XOR of the others), flipping one bit in any of the bytes 2 to 18
  makes \<open>decode\<close> raise \<open>BookooMessageError\<close> (checksum mismatch), and so does the
  constructor \<open>BookooMessage\<close> for any of the bytes 0 to 18. Flipping a bit of byte 0 or
  1 destroys the marker, and \<open>decode\<close> then raises nothing.
\<close>

theorem single_bit_corruption:
  assumes "length p = 20"
    and "uint (p ! 0) = WB1" and "uint (p ! 1) = WB2"
    and "(WB1, WB2) \<noteq> (0x55, 0xAA)"
    and "foldl (XOR) 0 (butlast p) = last p"
    and "k < 8"
  shows "(2 \<le> i \<and> i \<le> 18 \<longrightarrow>
            decode WB1 WB2 (p[i := flip_bit k (p ! i)])
              = Inl (BookooMessageError (p[i := flip_bit k (p ! i)]) ''Checksum mismatch''))
       \<and> (i \<le> 18 \<longrightarrow>
            BookooMessage_init (p[i := flip_bit k (p ! i)])
              = Inl (BookooMessageError (p[i := flip_bit k (p ! i)]) ''Checksum mismatch''))
       \<and> (i \<le> 1 \<longrightarrow> (\<exists>r. decode WB1 WB2 (p[i := flip_bit k (p ! i)]) = Inr r))"
proof -
  obtain d :: byte where d: "d \<noteq> 0" and fl: "\<And>x. flip_bit k x = x XOR d"
    using flip_bit_byte [OF assms(6)] by blast
  define q where "q = p[i := p ! i XOR d]"
  have q20: "length q = 20"
    using assms(1) by (simp add: q_def)
  have init: "BookooMessage_init q = Inl (BookooMessageError q ''Checksum mismatch'')"
    if "i \<le> 18"
  proof -
    have "foldl (XOR) 0 (butlast q) \<noteq> last q"
      unfolding q_def using corrupted_checksum [OF assms(1) that d assms(5)] .
    then show ?thesis
      by (simp add: BookooMessage_init_len20 [OF q20])
  qed
  have mid: "decode WB1 WB2 q = Inl (BookooMessageError q ''Checksum mismatch'')"
    if "2 \<le> i" and "i \<le> 18"
  proof -
    have same: "q ! 0 = p ! 0" "q ! 1 = p ! 1"
      using that(1) by (simp_all add: q_def)
    have nu: "\<not> (q ! 0 = 0x55 \<and> q ! 1 = 0xAA)"
      using assms(2-4) same by auto
    have "decode WB1 WB2 q = bind_exn (BookooMessage_init q) (\<lambda>msg. Inr (Some msg, []))"
      using nu assms(2,3) same by (auto simp add: decode_len20 [OF q20])
    then show ?thesis
      by (simp add: init [OF that(2)] bind_exn_def)
  qed
  have marker: "\<exists>r. decode WB1 WB2 q = Inr r" if "i \<le> 1"
  proof -
    have il: "i < length p" using that assms(1) by simp
    have "q ! i \<noteq> p ! i"
      using il xor_nonzero_neq [OF d, of "p ! i"] by (simp add: q_def)
    moreover have "i = 0 \<or> i = 1" using that by linarith
    ultimately have nm: "\<not> (uint (q ! 0) = WB1 \<and> uint (q ! 1) = WB2)"
      using assms(2,3) by (auto simp add: word_uint_eq_iff)
    show ?thesis
      using nm by (auto simp add: decode_len20 [OF q20] decode_ultra_message_len20 [OF q20])
  qed
  show ?thesis
    using init mid marker unfolding q_def fl by blast
qed

theorem single_bit_corruption_witness:
  "decode 3 11 [3, 11, 0, 0x0A, 0, 1, 0x2B, 0, 0x30, 0x38, 0x2D, 0, 50, 87, 5, 0, 2, 1, 0, 111]
     = Inl (BookooMessageError
         [3, 11, 0, 0x0A, 0, 1, 0x2B, 0, 0x30, 0x38, 0x2D, 0, 50, 87, 5, 0, 2, 1, 0, 111]
         ''Checksum mismatch'')
   \<and> (\<exists>r. decode 3 11 [3, 15, 0, 0x0A, 0, 1, 0x2B, 0, 0x30, 0x39, 0x2D, 0, 50, 87, 5, 0, 2, 1, 0, 111]
          = Inr r)"
  using single_bit_corruption [of "[3, 11, 0, 0x0A, 0, 1, 0x2B, 0, 0x30, 0x39, 0x2D, 0, 50, 87, 5, 0, 2, 1, 0, 111]" 3 11 0 9]
    single_bit_corruption [of "[3, 11, 0, 0x0A, 0, 1, 0x2B, 0, 0x30, 0x39, 0x2D, 0, 50, 87, 5, 0, 2, 1, 0, 111]" 3 11 2 1]
  by (simp add: flip_bit_eq_xor)

text \<open>
  C10. On a 20-byte payload that starts 0x55 0xAA, the slice [6:10] has its four bytes and
  the indices 14, 15 and 16 are in range, so the body of the \<open>try\<close> block does not
  raise: \<open>decode\<close> returns a record (with its weight set) and no leftover bytes, never
  \<open>(None, payload)\<close>.
\<close>

theorem ultra_try_never_fails:
  assumes "length p = 20" and "p ! 0 = 0x55" and "p ! 1 = 0xAA"
  shows "length (getslice p 6 10) = 4
    \<and> getitem p 14 = Inr (uint (p ! 14))
    \<and> getitem p 15 = Inr (uint (p ! 15))
    \<and> getitem p 16 = Inr (uint (p ! 16))
    \<and> (\<exists>m. decode_ultra_try p = Inr (Some m, []))
    \<and> (\<exists>m. decode WB1 WB2 p = Inr (Some m, []) \<and> weight m \<noteq> None)
    \<and> decode WB1 WB2 p \<noteq> Inr (None, p)"
proof -
  have s: "length (getslice p 6 10) = 4"
    using assms(1) by (simp add: slice_four)
  have g: "getitem p 14 = Inr (uint (p ! 14))" "getitem p 15 = Inr (uint (p ! 15))"
    "getitem p 16 = Inr (uint (p ! 16))"
    using assms(1) by (simp_all add: getitem_numeral)
  have t: "\<exists>m. decode_ultra_try p = Inr (Some m, [])"
    using assms(1) by (simp add: decode_ultra_try_in_range)
  have d: "decode WB1 WB2 p = decode_ultra_message p"
    using assms(2,3) by (simp add: decode_len20 [OF assms(1)])
  have m: "\<exists>m. decode WB1 WB2 p = Inr (Some m, []) \<and> weight m \<noteq> None"
    unfolding d decode_ultra_message_len20 [OF assms(1)]
    by (rule exI, rule conjI, rule refl) simp
  have n: "decode WB1 WB2 p \<noteq> Inr (None, p)"
    unfolding d decode_ultra_message_len20 [OF assms(1)] by simp
  show ?thesis using s g t m n by blast
qed

theorem ultra_try_never_fails_witness:
  "(\<exists>m. decode 3 11 [0x55, 0xAA, 0, 0, 0, 0, 0, 0, 0x30, 0x39, 0, 0, 0, 0, 87, 2, 5, 0, 0, 0]
           = Inr (Some m, []) \<and> weight m \<noteq> None)
   \<and> decode 3 11 [0x55, 0xAA, 0, 0, 0, 0, 0, 0, 0x30, 0x39, 0, 0, 0, 0, 87, 2, 5, 0, 0, 0]
       \<noteq> Inr (None, [0x55, 0xAA, 0, 0, 0, 0, 0, 0, 0x30, 0x39, 0, 0, 0, 0, 87, 2, 5, 0, 0, 0])"
  using ultra_try_never_fails [of "[0x55, 0xAA, 0, 0, 0, 0, 0, 0, 0x30, 0x39, 0, 0, 0, 0, 87, 2, 5, 0, 0, 0]" 3 11]
  by simp

end
